theory Spec2Isabelle
  imports Main
begin

section \<open>Wire values, errors and collaborators\<close>

text \<open>
  A decoded document is Go's \<open>map[string]interface{}\<close>. An \<open>interface{}\<close> holding
  decoded JSON is nil, a string, a number, a boolean, a slice or a nested map; the
  payload of a number is never inspected by the code modelled here. A nested map is kept
  as an association list inside the datatype and read through \<open>map_of\<close>.
\<close>

datatype raw =
    RNil
  | RString string
  | RNumber int
  | RBool bool
  | RList "raw list"
  | RMap "(string \<times> raw) list"

type_synonym raw_map = "string \<rightharpoonup> raw"

type_synonym alias_map = "string \<rightharpoonup> string"

text \<open>
  The errors of \<open>DeserializeOrderedCollectionPage\<close>, one constructor per
  \<open>fmt.Errorf\<close> of the source, and the error a property's own codec hands back.
\<close>

datatype error =
    NoTypeProperty
  | TypeIsNotOfType string
  | TypeValueNotFound
  | TypeUnrecognized raw
  | PropertyError string

text \<open>
  The standard library's \<open>net/url\<close>: \<open>url.Parse\<close> (\<open>None\<close> when it returns an
  error), the \<open>Scheme\<close> field and the \<open>String\<close> method. They are taken as given.
\<close>

record 'u net_url =
  url_Parse :: "string \<Rightarrow> 'u option"
  url_Scheme :: "'u \<Rightarrow> string"
  url_String :: "'u \<Rightarrow> string"

definition activitystreams_ns :: string where
  "activitystreams_ns = ''https://www.w3.org/TR/activitystreams-vocabulary''"

text \<open>The first lines of every deserializer: the alias registered for the namespace.\<close>

definition alias_of :: "alias_map \<Rightarrow> string" where
  "alias_of aliasMap = (case aliasMap activitystreams_ns of Some a \<Rightarrow> a | None \<Rightarrow> [])"

text \<open>\<open>fmt.Sprintf("%s:%s", alias, name)\<close> when the alias is not empty.\<close>

definition prop_name :: "string \<Rightarrow> string \<Rightarrow> string" where
  "prop_name alias name = (if length alias > 0 then alias @ '':'' @ name else name)"

text \<open>Go compares strings byte by byte.\<close>

fun string_less :: "string \<Rightarrow> string \<Rightarrow> bool" where
  "string_less [] [] = False"
| "string_less [] (y # ys) = True"
| "string_less (x # xs) [] = False"
| "string_less (x # xs) (y # ys) =
     (if (of_char x :: nat) < of_char y then True
      else if (of_char y :: nat) < of_char x then False
      else string_less xs ys)"

section \<open>The functional property "followers"\<close>

text \<open>
  \<open>FollowersProperty\<close>: one field per kind. A nil interface or nil pointer is
  \<open>None\<close>; the \<open>unknown\<close> field is an \<open>interface{}\<close>, nil being \<open>RNil\<close>.
\<close>

record ('oc, 'c, 'cp, 'ocp, 'u) FollowersProperty =
  OrderedCollectionMember :: "'oc option"
  CollectionMember :: "'c option"
  CollectionPageMember :: "'cp option"
  OrderedCollectionPageMember :: "'ocp option"
  fp_unknown :: raw
  iri :: "'u option"
  fp_alias :: string

text \<open>
  The package variable \<open>mgr\<close>: the deserializers of the four structured kinds, injected
  at start-up (\<open>None\<close> when the call returns an error), and the \<open>LessThan\<close> methods of
  the values they produce.
\<close>

record ('oc, 'c, 'cp, 'ocp) manager =
  DeserializeOrderedCollectionActivityStreams :: "raw_map \<Rightarrow> alias_map \<Rightarrow> 'oc option"
  DeserializeCollectionActivityStreams :: "raw_map \<Rightarrow> alias_map \<Rightarrow> 'c option"
  DeserializeCollectionPageActivityStreams :: "raw_map \<Rightarrow> alias_map \<Rightarrow> 'cp option"
  DeserializeOrderedCollectionPageActivityStreams :: "raw_map \<Rightarrow> alias_map \<Rightarrow> 'ocp option"
  OrderedCollection_LessThan :: "'oc \<Rightarrow> 'oc \<Rightarrow> bool"
  Collection_LessThan :: "'c \<Rightarrow> 'c \<Rightarrow> bool"
  CollectionPage_LessThan :: "'cp \<Rightarrow> 'cp \<Rightarrow> bool"
  OrderedCollectionPage_LessThan :: "'ocp \<Rightarrow> 'ocp \<Rightarrow> bool"

text \<open>The zero value of the struct, with the alias given.\<close>

definition fp_zero :: "string \<Rightarrow> ('oc, 'c, 'cp, 'ocp, 'u) FollowersProperty" where
  "fp_zero a = \<lparr>OrderedCollectionMember = None, CollectionMember = None,
     CollectionPageMember = None, OrderedCollectionPageMember = None,
     fp_unknown = RNil, iri = None, fp_alias = a\<rparr>"

definition NewFollowersProperty :: "('oc, 'c, 'cp, 'ocp, 'u) FollowersProperty" where
  "NewFollowersProperty = fp_zero []"

text \<open>
  Lines 39 to 50: the value is a string, \<open>url.Parse\<close> accepts it and the scheme is not
  empty.
\<close>

definition parse_iri :: "'u net_url \<Rightarrow> raw \<Rightarrow> 'u option" where
  "parse_iri U i =
     (case i of
        RString s \<Rightarrow>
          (case url_Parse U s of
             Some u \<Rightarrow> if length (url_Scheme U u) > 0 then Some u else None
           | None \<Rightarrow> None)
      | _ \<Rightarrow> None)"

text \<open>
  Lines 51 to 77: the value is a map, and the first of the four deserializers that
  returns no error commits its kind.
\<close>

definition parse_kinds ::
  "('oc, 'c, 'cp, 'ocp) manager \<Rightarrow> string \<Rightarrow> raw \<Rightarrow> alias_map \<Rightarrow>
     ('oc, 'c, 'cp, 'ocp, 'u) FollowersProperty option" where
  "parse_kinds M alias i aliasMap =
     (case i of
        RMap kvs \<Rightarrow>
          (case DeserializeOrderedCollectionActivityStreams M (map_of kvs) aliasMap of
             Some v \<Rightarrow> Some ((fp_zero alias)\<lparr>OrderedCollectionMember := Some v\<rparr>)
           | None \<Rightarrow>
          (case DeserializeCollectionActivityStreams M (map_of kvs) aliasMap of
             Some v \<Rightarrow> Some ((fp_zero alias)\<lparr>CollectionMember := Some v\<rparr>)
           | None \<Rightarrow>
          (case DeserializeCollectionPageActivityStreams M (map_of kvs) aliasMap of
             Some v \<Rightarrow> Some ((fp_zero alias)\<lparr>CollectionPageMember := Some v\<rparr>)
           | None \<Rightarrow>
          (case DeserializeOrderedCollectionPageActivityStreams M (map_of kvs) aliasMap of
             Some v \<Rightarrow> Some ((fp_zero alias)\<lparr>OrderedCollectionPageMember := Some v\<rparr>)
           | None \<Rightarrow> None))))
      | _ \<Rightarrow> None)"

text \<open>
  \<open>DeserializeFollowersProperty\<close>. The result is \<open>Inl\<close> an error, \<open>Inr None\<close> for
  the pair (nil, nil) and \<open>Inr (Some p)\<close> for a property.
\<close>

definition DeserializeFollowersProperty ::
  "'u net_url \<Rightarrow> ('oc, 'c, 'cp, 'ocp) manager \<Rightarrow> raw_map \<Rightarrow> alias_map \<Rightarrow>
     error + ('oc, 'c, 'cp, 'ocp, 'u) FollowersProperty option" where
  "DeserializeFollowersProperty U M m aliasMap =
     (let alias = alias_of aliasMap;
          propName = prop_name alias ''followers''
      in case m propName of
           Some i \<Rightarrow>
             (case parse_iri U i of
                Some u \<Rightarrow> Inr (Some ((fp_zero alias)\<lparr>iri := Some u\<rparr>))
              | None \<Rightarrow>
                  (case parse_kinds M alias i aliasMap of
                     Some this \<Rightarrow> Inr (Some this)
                   | None \<Rightarrow> Inr (Some ((fp_zero alias)\<lparr>fp_unknown := i\<rparr>))))
         | None \<Rightarrow> Inr None)"


definition IsCollection :: "('oc, 'c, 'cp, 'ocp, 'u) FollowersProperty \<Rightarrow> bool" where
  "IsCollection this = (CollectionMember this \<noteq> None)"

definition IsCollectionPage :: "('oc, 'c, 'cp, 'ocp, 'u) FollowersProperty \<Rightarrow> bool" where
  "IsCollectionPage this = (CollectionPageMember this \<noteq> None)"

definition IsIRI :: "('oc, 'c, 'cp, 'ocp, 'u) FollowersProperty \<Rightarrow> bool" where
  "IsIRI this = (iri this \<noteq> None)"

definition IsOrderedCollection :: "('oc, 'c, 'cp, 'ocp, 'u) FollowersProperty \<Rightarrow> bool" where
  "IsOrderedCollection this = (OrderedCollectionMember this \<noteq> None)"

definition IsOrderedCollectionPage :: "('oc, 'c, 'cp, 'ocp, 'u) FollowersProperty \<Rightarrow> bool" where
  "IsOrderedCollectionPage this = (OrderedCollectionPageMember this \<noteq> None)"

definition HasAny :: "('oc, 'c, 'cp, 'ocp, 'u) FollowersProperty \<Rightarrow> bool" where
  "HasAny this =
     (IsOrderedCollection this \<or> IsCollection this \<or> IsCollectionPage this \<or>
      IsOrderedCollectionPage this \<or> iri this \<noteq> None)"

definition KindIndex :: "('oc, 'c, 'cp, 'ocp, 'u) FollowersProperty \<Rightarrow> int" where
  "KindIndex this =
     (if IsOrderedCollection this then 0
      else if IsCollection this then 1
      else if IsCollectionPage this then 2
      else if IsOrderedCollectionPage this then 3
      else if IsIRI this then - 2
      else - 1)"

text \<open>
  \<open>LessThan\<close>. A getter is read with \<open>the\<close> only in a branch where both indices are
  equal, so the other cell holds the same kind and the member is not nil.
\<close>

definition LessThan ::
  "'u net_url \<Rightarrow> ('oc, 'c, 'cp, 'ocp) manager \<Rightarrow>
     ('oc, 'c, 'cp, 'ocp, 'u) FollowersProperty \<Rightarrow>
     ('oc, 'c, 'cp, 'ocp, 'u) FollowersProperty \<Rightarrow> bool" where
  "LessThan U M this o' =
     (let idx1 = KindIndex this; idx2 = KindIndex o'
      in if idx1 < idx2 then True
         else if idx1 > idx2 then False
         else if IsOrderedCollection this then
           OrderedCollection_LessThan M (the (OrderedCollectionMember this))
             (the (OrderedCollectionMember o'))
         else if IsCollection this then
           Collection_LessThan M (the (CollectionMember this)) (the (CollectionMember o'))
         else if IsCollectionPage this then
           CollectionPage_LessThan M (the (CollectionPageMember this))
             (the (CollectionPageMember o'))
         else if IsOrderedCollectionPage this then
           OrderedCollectionPage_LessThan M (the (OrderedCollectionPageMember this))
             (the (OrderedCollectionPageMember o'))
         else if IsIRI this then
           string_less (url_String U (the (iri this))) (url_String U (the (iri o')))
         else False)"






section \<open>The non-functional property "type"\<close>

text \<open>
  The value packages \<open>anyURI\<close> and \<open>string\<close>: their deserializers (\<open>None\<close> when
  they return an error), serializers and comparisons. They are taken as given.
\<close>

record 'u value_kinds =
  DeserializeAnyURI :: "raw \<Rightarrow> 'u option"
  SerializeAnyURI :: "'u \<Rightarrow> error + raw"
  LessAnyURI :: "'u \<Rightarrow> 'u \<Rightarrow> bool"
  DeserializeString :: "raw \<Rightarrow> string option"
  SerializeString :: "string \<Rightarrow> error + raw"
  LessString :: "string \<Rightarrow> string \<Rightarrow> bool"

text \<open>
  \<open>TypePropertyIterator\<close>. The \<open>parent\<close> back-reference is the list that holds the
  iterator; the model keeps iterators inside their list and has no field for it.
\<close>

record 'u TypePropertyIterator =
  anyURIMember :: "'u option"
  stringMember :: string
  hasStringMember :: bool
  it_unknown :: raw
  it_alias :: string
  myIdx :: int

definition it_zero :: "string \<Rightarrow> 'u TypePropertyIterator" where
  "it_zero a = \<lparr>anyURIMember = None, stringMember = [], hasStringMember = False,
     it_unknown = RNil, it_alias = a, myIdx = 0\<rparr>"

definition NewTypePropertyIterator :: "'u TypePropertyIterator" where
  "NewTypePropertyIterator = it_zero []"

definition deserializeTypePropertyIterator ::
  "'u value_kinds \<Rightarrow> raw \<Rightarrow> alias_map \<Rightarrow> error + 'u TypePropertyIterator option" where
  "deserializeTypePropertyIterator V i aliasMap =
     (let alias = alias_of aliasMap
      in case DeserializeAnyURI V i of
           Some v \<Rightarrow> Inr (Some ((it_zero alias)\<lparr>anyURIMember := Some v\<rparr>))
         | None \<Rightarrow>
             (case DeserializeString V i of
                Some v \<Rightarrow>
                  Inr (Some ((it_zero alias)\<lparr>hasStringMember := True, stringMember := v\<rparr>))
              | None \<Rightarrow> Inr (Some ((it_zero alias)\<lparr>it_unknown := i\<rparr>))))"

definition TypePropertyIterator_IsAnyURI :: "'u TypePropertyIterator \<Rightarrow> bool" where
  "TypePropertyIterator_IsAnyURI this = (anyURIMember this \<noteq> None)"

definition TypePropertyIterator_IsIRI :: "'u TypePropertyIterator \<Rightarrow> bool" where
  "TypePropertyIterator_IsIRI this = (anyURIMember this \<noteq> None)"

definition TypePropertyIterator_IsString :: "'u TypePropertyIterator \<Rightarrow> bool" where
  "TypePropertyIterator_IsString this = hasStringMember this"

definition TypePropertyIterator_HasAny :: "'u TypePropertyIterator \<Rightarrow> bool" where
  "TypePropertyIterator_HasAny this =
     (TypePropertyIterator_IsAnyURI this \<or> TypePropertyIterator_IsString this)"

definition TypePropertyIterator_KindIndex :: "'u TypePropertyIterator \<Rightarrow> int" where
  "TypePropertyIterator_KindIndex this =
     (if TypePropertyIterator_IsAnyURI this then 0
      else if TypePropertyIterator_IsString this then 1
      else if TypePropertyIterator_IsIRI this then - 2
      else - 1)"

definition TypePropertyIterator_serialize ::
  "'u value_kinds \<Rightarrow> 'u TypePropertyIterator \<Rightarrow> error + raw" where
  "TypePropertyIterator_serialize V this =
     (if TypePropertyIterator_IsAnyURI this then SerializeAnyURI V (the (anyURIMember this))
      else if TypePropertyIterator_IsString this then SerializeString V (stringMember this)
      else Inr (it_unknown this))"

record 'u TypeProperty =
  properties :: "'u TypePropertyIterator list"
  tp_alias :: string

text \<open>
  The loop of lines 245 to 251 over the elements of a wire list: the first error ends
  it, a nil iterator is skipped, any other is appended.
\<close>

fun deserialize_list ::
  "'u value_kinds \<Rightarrow> raw list \<Rightarrow> alias_map \<Rightarrow> 'u TypePropertyIterator list \<Rightarrow>
     error + 'u TypePropertyIterator list" where
  "deserialize_list V [] aliasMap ps = Inr ps"
| "deserialize_list V (iterator # list) aliasMap ps =
     (case deserializeTypePropertyIterator V iterator aliasMap of
        Inl err \<Rightarrow> Inl err
      | Inr None \<Rightarrow> deserialize_list V list aliasMap ps
      | Inr (Some p) \<Rightarrow> deserialize_list V list aliasMap (ps @ [p]))"

text \<open>The loop of lines 260 to 263: every element is given its position.\<close>

definition set_up_iteration :: "'u TypePropertyIterator list \<Rightarrow> 'u TypePropertyIterator list" where
  "set_up_iteration ps = map (\<lambda>(idx, ele). ele\<lparr>myIdx := int idx\<rparr>) (enumerate 0 ps)"

text \<open>
  \<open>DeserializeTypeProperty\<close>. Where the source returns the half-built property together
  with an error, the model returns the error.
\<close>

definition DeserializeTypeProperty ::
  "'u value_kinds \<Rightarrow> raw_map \<Rightarrow> alias_map \<Rightarrow> error + 'u TypeProperty option" where
  "DeserializeTypeProperty V m aliasMap =
     (let alias = alias_of aliasMap;
          propName = prop_name alias ''type''
      in case m propName of
           Some i \<Rightarrow>
             (case (case i of
                      RList list \<Rightarrow> deserialize_list V list aliasMap []
                    | _ \<Rightarrow>
                        (case deserializeTypePropertyIterator V i aliasMap of
                           Inl err \<Rightarrow> Inl err
                         | Inr None \<Rightarrow> Inr []
                         | Inr (Some p) \<Rightarrow> Inr [p])) of
                Inl err \<Rightarrow> Inl err
              | Inr ps \<Rightarrow> Inr (Some \<lparr>properties = set_up_iteration ps, tp_alias = alias\<rparr>))
         | None \<Rightarrow> Inr None)"

definition NewTypeProperty :: "'u TypeProperty" where
  "NewTypeProperty = \<lparr>properties = [], tp_alias = []\<rparr>"

definition Len :: "'u TypeProperty \<Rightarrow> int" where
  "Len this = int (length (properties this))"

definition AppendString :: "string \<Rightarrow> 'u TypeProperty \<Rightarrow> 'u TypeProperty" where
  "AppendString v this =
     this\<lparr>properties := properties this @
       [(it_zero (tp_alias this))\<lparr>hasStringMember := True, myIdx := Len this,
          stringMember := v\<rparr>]\<rparr>"

text \<open>The loop of lines 480 to 486 of \<open>TypeProperty.Serialize\<close>.\<close>

fun serialize_list ::
  "'u value_kinds \<Rightarrow> 'u TypePropertyIterator list \<Rightarrow> raw list \<Rightarrow> error + raw list" where
  "serialize_list V [] s = Inr s"
| "serialize_list V (iterator # rest) s =
     (case TypePropertyIterator_serialize V iterator of
        Inl err \<Rightarrow> Inl err
      | Inr b \<Rightarrow> serialize_list V rest (s @ [b]))"

definition TypeProperty_Serialize :: "'u value_kinds \<Rightarrow> 'u TypeProperty \<Rightarrow> error + raw" where
  "TypeProperty_Serialize V this =
     (case serialize_list V (properties this) [] of
        Inl err \<Rightarrow> Inl err
      | Inr s \<Rightarrow> if length s = 1 then Inr (s ! 0) else Inr (RList s))"

section \<open>The type OrderedCollectionPage\<close>

text \<open>
  The forty properties of the type other than "type" have their codecs in packages of
  their own, reached through \<open>mgr\<close>: \<open>DeserializeProperty P n\<close> stands for
  \<open>mgr.Deserialize<N>PropertyActivityStreams()\<close> of the property with wire name
  \<open>n\<close> (\<open>Inr None\<close> for the pair (nil, nil)), \<open>Property_Serialize\<close> and
  \<open>Property_Name\<close> for the methods \<open>Serialize\<close> and \<open>Name\<close> of the value it
  returns. They are taken as given.
\<close>

record 'p property_codecs =
  DeserializeProperty :: "string \<Rightarrow> raw_map \<Rightarrow> alias_map \<Rightarrow> error + 'p option"
  Property_Serialize :: "'p \<Rightarrow> error + raw"
  Property_Name :: "'p \<Rightarrow> string"

text \<open>
  \<open>OrderedCollectionPage\<close>. The struct has one field per property, each nil or a
  property; the forty fields other than \<open>Type\<close> are held in \<open>Fields\<close> under the wire
  name of their property, a nil field being an absent key.
\<close>

record ('p, 'u) OrderedCollectionPage =
  Fields :: "string \<rightharpoonup> 'p"
  Type :: "'u TypeProperty option"
  ocp_alias :: string
  ocp_unknown :: raw_map

text \<open>
  The fields in the order of the source, which deserializes and serializes them one
  after the other: those before \<open>Type\<close> and those after it.
\<close>

definition fields_before_type :: "string list" where
  "fields_before_type =
     [''altitude'', ''attachment'', ''attributedTo'', ''audience'', ''bcc'', ''bto'', ''cc'',
      ''content'', ''context'', ''current'', ''duration'', ''endTime'', ''first'',
      ''generator'', ''icon'', ''id'', ''image'', ''inReplyTo'', ''last'', ''likes'',
      ''location'', ''mediaType'', ''name'', ''next'', ''object'', ''orderedItems'',
      ''partOf'', ''prev'', ''preview'', ''published'', ''replies'', ''shares'',
      ''startIndex'', ''startTime'', ''summary'', ''tag'', ''to'', ''totalItems'']"

definition fields_after_type :: "string list" where
  "fields_after_type = [''updated'', ''url'']"

text \<open>The keys that lines 323 to 411 keep out of the unknown properties.\<close>

definition known_keys :: "string list" where
  "known_keys =
     [''altitude'', ''attachment'', ''attributedTo'', ''audience'', ''bcc'', ''bto'', ''cc'',
      ''content'', ''contentMap'', ''context'', ''current'', ''duration'', ''endTime'',
      ''first'', ''generator'', ''icon'', ''id'', ''image'', ''inReplyTo'', ''last'',
      ''likes'', ''location'', ''mediaType'', ''name'', ''nameMap'', ''next'', ''object'',
      ''orderedItems'', ''partOf'', ''prev'', ''preview'', ''published'', ''replies'',
      ''shares'', ''startIndex'', ''startTime'', ''summary'', ''summaryMap'', ''tag'',
      ''to'', ''totalItems'', ''type'', ''updated'', ''url'']"

text \<open>\<open>strings.TrimPrefix\<close>.\<close>

definition TrimPrefix :: "string \<Rightarrow> string \<Rightarrow> string" where
  "TrimPrefix s pre = (if take (length pre) s = pre then drop (length pre) s else s)"

text \<open>The loop of lines 99 to 104 over the elements of an array-valued "type".\<close>

fun type_found :: "string \<Rightarrow> raw list \<Rightarrow> bool" where
  "type_found aliasPrefix [] = False"
| "type_found aliasPrefix (elemVal # arrType) =
     (case elemVal of
        RString typeString \<Rightarrow>
          if TrimPrefix typeString aliasPrefix = ''OrderedCollectionPage'' then True
          else type_found aliasPrefix arrType
      | _ \<Rightarrow> type_found aliasPrefix arrType)"

text \<open>Lines 89 to 111: the error the "type" entry of the map gives, if any.\<close>

definition check_type :: "string \<Rightarrow> raw_map \<Rightarrow> error option" where
  "check_type aliasPrefix m =
     (case m ''type'' of
        None \<Rightarrow> Some NoTypeProperty
      | Some (RString typeString) \<Rightarrow>
          (let typeName = TrimPrefix typeString aliasPrefix
           in if typeName \<noteq> ''OrderedCollectionPage'' then Some (TypeIsNotOfType typeName)
              else None)
      | Some (RList arrType) \<Rightarrow>
          if \<not> type_found aliasPrefix arrType then Some TypeValueNotFound else None
      | Some typeValue \<Rightarrow> Some (TypeUnrecognized typeValue))"

text \<open>
  The known property deserialization of lines 113 to 317, for a run of fields: the
  first error ends it, a nil property leaves the field as it is.
\<close>

fun deserialize_fields ::
  "'p property_codecs \<Rightarrow> string list \<Rightarrow> raw_map \<Rightarrow> alias_map \<Rightarrow>
     ('p, 'u) OrderedCollectionPage \<Rightarrow> error + ('p, 'u) OrderedCollectionPage" where
  "deserialize_fields P [] m aliasMap this = Inr this"
| "deserialize_fields P (n # ns) m aliasMap this =
     (case DeserializeProperty P n m aliasMap of
        Inl err \<Rightarrow> Inl err
      | Inr None \<Rightarrow> deserialize_fields P ns m aliasMap this
      | Inr (Some p) \<Rightarrow>
          deserialize_fields P ns m aliasMap (this\<lparr>Fields := (Fields this)(n \<mapsto> p)\<rparr>))"

text \<open>The unknown deserialization of lines 321 to 414.\<close>

definition collect_unknown :: "raw_map \<Rightarrow> raw_map" where
  "collect_unknown m = (\<lambda>k. if k \<in> set known_keys then None else m k)"

text \<open>Lines 80 to 84: the prefix that is cut from a "type" value.\<close>

definition alias_prefix_of :: "alias_map \<Rightarrow> string" where
  "alias_prefix_of aliasMap =
     (case aliasMap activitystreams_ns of Some a \<Rightarrow> a @ '':'' | None \<Rightarrow> [])"

text \<open>
  \<open>DeserializeOrderedCollectionPage\<close>; \<open>mgr.DeserializeTypePropertyActivityStreams()\<close>
  is \<open>DeserializeTypeProperty\<close>.
\<close>

definition DeserializeOrderedCollectionPage ::
  "'p property_codecs \<Rightarrow> 'u value_kinds \<Rightarrow> raw_map \<Rightarrow> alias_map \<Rightarrow>
     error + ('p, 'u) OrderedCollectionPage" where
  "DeserializeOrderedCollectionPage P V m aliasMap =
     (let alias = alias_of aliasMap;
          aliasPrefix = alias_prefix_of aliasMap;
          this = \<lparr>Fields = Map.empty, Type = None, ocp_alias = alias, ocp_unknown = Map.empty\<rparr>
      in case check_type aliasPrefix m of
           Some err \<Rightarrow> Inl err
         | None \<Rightarrow>
      (case deserialize_fields P fields_before_type m aliasMap this of
           Inl err \<Rightarrow> Inl err
         | Inr this1 \<Rightarrow>
      (case DeserializeTypeProperty V m aliasMap of
           Inl err \<Rightarrow> Inl err
         | Inr t \<Rightarrow>
      (case deserialize_fields P fields_after_type m aliasMap
              (case t of None \<Rightarrow> this1 | Some p \<Rightarrow> this1\<lparr>Type := Some p\<rparr>) of
           Inl err \<Rightarrow> Inl err
         | Inr this2 \<Rightarrow> Inr (this2\<lparr>ocp_unknown := collect_unknown m\<rparr>)))))"

text \<open>
  \<open>NewOrderedCollectionPage\<close>; the injected \<open>typePropertyConstructor\<close> is
  \<open>NewTypeProperty\<close>.
\<close>

definition NewOrderedCollectionPage :: "('p, 'u) OrderedCollectionPage" where
  "NewOrderedCollectionPage =
     \<lparr>Fields = Map.empty, Type = Some (AppendString ''OrderedCollectionPage'' NewTypeProperty),
      ocp_alias = [], ocp_unknown = Map.empty\<rparr>"

text \<open>
  The known property serialization of lines 1337 to 1664, for a run of fields: a nil
  field is passed over, the first error ends the run, a nil value is not written.
\<close>

fun serialize_fields ::
  "'p property_codecs \<Rightarrow> string list \<Rightarrow> ('p, 'u) OrderedCollectionPage \<Rightarrow> raw_map \<Rightarrow>
     error + raw_map" where
  "serialize_fields P [] this m = Inr m"
| "serialize_fields P (n # ns) this m =
     (case Fields this n of
        None \<Rightarrow> serialize_fields P ns this m
      | Some p \<Rightarrow>
          (case Property_Serialize P p of
             Inl err \<Rightarrow> Inl err
           | Inr i \<Rightarrow>
               if i \<noteq> RNil then serialize_fields P ns this (m(Property_Name P p \<mapsto> i))
               else serialize_fields P ns this m))"

text \<open>Lines 1641 to 1648; \<open>TypeProperty.Name\<close> returns "type".\<close>

definition serialize_type ::
  "'u value_kinds \<Rightarrow> ('p, 'u) OrderedCollectionPage \<Rightarrow> raw_map \<Rightarrow> error + raw_map" where
  "serialize_type V this m =
     (case Type this of
        None \<Rightarrow> Inr m
      | Some t \<Rightarrow>
          (case TypeProperty_Serialize V t of
             Inl err \<Rightarrow> Inl err
           | Inr i \<Rightarrow> if i \<noteq> RNil then Inr (m(''type'' \<mapsto> i)) else Inr m))"

text \<open>Lines 1330 to 1665: the map once every known property is written.\<close>

definition serialize_known ::
  "'p property_codecs \<Rightarrow> 'u value_kinds \<Rightarrow> ('p, 'u) OrderedCollectionPage \<Rightarrow>
     error + raw_map" where
  "serialize_known P V this =
     (let typeName =
            (if length (ocp_alias this) > 0
             then ocp_alias this @ '':'' @ ''OrderedCollectionPage''
             else ''OrderedCollectionPage'');
          m = [''type'' \<mapsto> RString typeName]
      in case serialize_fields P fields_before_type this m of
           Inl err \<Rightarrow> Inl err
         | Inr m1 \<Rightarrow>
             (case serialize_type V this m1 of
                Inl err \<Rightarrow> Inl err
              | Inr m2 \<Rightarrow> serialize_fields P fields_after_type this m2))"

text \<open>
  \<open>OrderedCollectionPage.Serialize\<close>: after the known properties, lines 1667 to 1674
  write every unknown property whose key the map does not hold yet.
\<close>

definition OrderedCollectionPage_Serialize ::
  "'p property_codecs \<Rightarrow> 'u value_kinds \<Rightarrow> ('p, 'u) OrderedCollectionPage \<Rightarrow>
     error + raw_map" where
  "OrderedCollectionPage_Serialize P V this =
     (case serialize_known P V this of
        Inl err \<Rightarrow> Inl err
      | Inr m \<Rightarrow>
          Inr (\<lambda>k. case m k of Some v \<Rightarrow> Some v | None \<Rightarrow> ocp_unknown this k))"

section \<open>Sample collaborators\<close>

text \<open>
  Collaborators to run the definitions above on concrete documents. A sample URL is its
  own text, and its scheme is the text before the first colon.
\<close>

definition sample_url :: "string net_url" where
  "sample_url =
     \<lparr>url_Parse = Some,
      url_Scheme = (\<lambda>u. if CHR '':'' \<in> set u then takeWhile (\<lambda>c. c \<noteq> CHR '':'') u else []),
      url_String = id\<rparr>"

text \<open>
  Modelled from the spec: the value-kind parsers and serializers of the packages
  \<open>anyURI\<close> and \<open>string\<close>, which are not among the sources. A parser rejects a
  value of another kind; the reference-identifier parser accepts a string with a scheme;
  a serializer gives the wire value back.
\<close>

definition sample_values :: "string value_kinds" where
  "sample_values =
     \<lparr>DeserializeAnyURI = parse_iri sample_url,
      SerializeAnyURI = (\<lambda>u. Inr (RString (url_String sample_url u))),
      LessAnyURI = string_less,
      DeserializeString = (\<lambda>i. case i of RString s \<Rightarrow> Some s | _ \<Rightarrow> None),
      SerializeString = (\<lambda>s. Inr (RString s)),
      LessString = string_less\<rparr>"

text \<open>
  Modelled from the spec: the deserializers of the four structured kinds, which are not
  among the sources. Each accepts a map whose "type" is its own type name; the value it
  builds is not looked into.
\<close>

definition sample_manager :: "(unit, unit, unit, unit) manager" where
  "sample_manager =
     \<lparr>DeserializeOrderedCollectionActivityStreams =
        (\<lambda>m aliasMap. if m ''type'' = Some (RString ''OrderedCollection'') then Some () else None),
      DeserializeCollectionActivityStreams =
        (\<lambda>m aliasMap. if m ''type'' = Some (RString ''Collection'') then Some () else None),
      DeserializeCollectionPageActivityStreams =
        (\<lambda>m aliasMap. if m ''type'' = Some (RString ''CollectionPage'') then Some () else None),
      DeserializeOrderedCollectionPageActivityStreams =
        (\<lambda>m aliasMap.
           if m ''type'' = Some (RString ''OrderedCollectionPage'') then Some () else None),
      OrderedCollection_LessThan = (\<lambda>a b. False),
      Collection_LessThan = (\<lambda>a b. False),
      CollectionPage_LessThan = (\<lambda>a b. False),
      OrderedCollectionPage_LessThan = (\<lambda>a b. False)\<rparr>"

text \<open>
  Modelled from the spec: the codecs of the forty properties that are not among the
  sources. A property is read under its resolved wire key (alias-prefixed when an alias
  is registered), an absent key leaves it unset without an error, and the property keeps
  its name and the wire value, which it serializes back.
\<close>

definition sample_codecs :: "(string \<times> raw) property_codecs" where
  "sample_codecs =
     \<lparr>DeserializeProperty =
        (\<lambda>n m aliasMap.
           case m (prop_name (alias_of aliasMap) n) of
             None \<Rightarrow> Inr None
           | Some v \<Rightarrow> Inr (Some (n, v))),
      Property_Serialize = (\<lambda>p. Inr (snd p)),
      Property_Name = fst\<rparr>"

text \<open>The alias table that gives the namespace the prefix "as".\<close>

definition as_aliases :: alias_map where
  "as_aliases = [activitystreams_ns \<mapsto> ''as'']"

section \<open>The round trip and what it asks of the collaborators\<close>






section \<open>Collaborators that do not give a value back\<close>





section \<open>Kind indices and the ordering of cells\<close>

lemmas fp_defs = IsCollection_def IsCollectionPage_def IsIRI_def IsOrderedCollection_def
  IsOrderedCollectionPage_def HasAny_def KindIndex_def

lemmas it_defs = TypePropertyIterator_KindIndex_def TypePropertyIterator_IsIRI_def
  TypePropertyIterator_IsAnyURI_def TypePropertyIterator_IsString_def
  TypePropertyIterator_HasAny_def

text \<open>
  Claim C2 says that the index reported for a committed IRI lies strictly above the
  index of every committed structured or primitive kind and strictly below the value of
  the unknown fallback. The first half is false here: a "followers" cell holding an
  OrderedCollection reports 0 and a cell holding an IRI reports -2, which is not above.
\<close>

theorem KindIndex_iri_not_above_structured:
  "\<not> (KindIndex ((fp_zero [] :: (unit, unit, unit, unit, string) FollowersProperty)
           \<lparr>OrderedCollectionMember := Some ()\<rparr>)
         < KindIndex ((fp_zero [] :: (unit, unit, unit, unit, string) FollowersProperty)
           \<lparr>iri := Some ''https://example.org/a''\<rparr>))"
  by (simp add: fp_defs fp_zero_def)

text \<open>
  Claim C2, as amended. A "followers" cell \<open>i\<close> whose committed kind is the IRI reports
  -2, a cell \<open>n\<close> with no committed kind (empty, or fallen back to unknown) reports -1,
  and a cell \<open>s\<close> with a committed structured kind reports 0 for an OrderedCollection,
  1 for a Collection, 2 for a CollectionPage and 3 for an OrderedCollectionPage, hence a
  value from 0 to 3: the IRI sorts strictly below the unknown fallback, as claimed, and
  the unknown fallback strictly below every structured kind, so the IRI sorts before the
  structured kinds and not after them. For an iterator of "type" the IRI is the anyURI kind: an iterator
  \<open>a\<close> holding one reports 0, strictly above the -1 of an iterator \<open>c\<close> with no
  committed kind and strictly below the 1 of an iterator \<open>b\<close> holding a string.
\<close>

theorem KindIndex_iri_below_unset:
  assumes "IsIRI i"
    and "\<not> (IsOrderedCollection i \<or> IsCollection i \<or> IsCollectionPage i \<or>
              IsOrderedCollectionPage i)"
    and "IsOrderedCollection s \<or> IsCollection s \<or> IsCollectionPage s \<or>
           IsOrderedCollectionPage s"
    and "\<not> HasAny n"
    and "TypePropertyIterator_IsIRI a"
    and "TypePropertyIterator_IsString b" and "\<not> TypePropertyIterator_IsAnyURI b"
    and "\<not> TypePropertyIterator_HasAny c"
  shows "KindIndex i = - 2 \<and> KindIndex n = - 1 \<and>
         KindIndex s =
           (if IsOrderedCollection s then 0 else if IsCollection s then 1
            else if IsCollectionPage s then 2 else 3) \<and>
         0 \<le> KindIndex s \<and> KindIndex s \<le> 3 \<and>
         KindIndex i < KindIndex n \<and> KindIndex n < KindIndex s \<and>
         TypePropertyIterator_KindIndex c = - 1 \<and> TypePropertyIterator_KindIndex a = 0 \<and>
         TypePropertyIterator_KindIndex b = 1 \<and>
         TypePropertyIterator_KindIndex c < TypePropertyIterator_KindIndex a \<and>
         TypePropertyIterator_KindIndex a < TypePropertyIterator_KindIndex b"
  using assms by (auto simp add: fp_defs it_defs)

theorem KindIndex_iri_below_unset_witness:
  "KindIndex ((fp_zero [] :: (unit, unit, unit, unit, string) FollowersProperty)
      \<lparr>iri := Some ''https://example.org/a''\<rparr>) = - 2 \<and>
   KindIndex ((fp_zero [] :: (unit, unit, unit, unit, string) FollowersProperty)
      \<lparr>fp_unknown := RBool True\<rparr>) = - 1 \<and>
   KindIndex ((fp_zero [] :: (unit, unit, unit, unit, string) FollowersProperty)
      \<lparr>CollectionPageMember := Some ()\<rparr>) = 2 \<and>
   TypePropertyIterator_KindIndex
     ((it_zero [])\<lparr>anyURIMember := Some ''https://example.org/a''\<rparr>) = 0 \<and>
   TypePropertyIterator_KindIndex
     ((it_zero [] :: string TypePropertyIterator)
        \<lparr>hasStringMember := True, stringMember := ''Note''\<rparr>) = 1 \<and>
   TypePropertyIterator_KindIndex
     ((it_zero [] :: string TypePropertyIterator)\<lparr>it_unknown := RBool True\<rparr>) = - 1"
  using KindIndex_iri_below_unset
    [of "(fp_zero [] :: (unit, unit, unit, unit, string) FollowersProperty)
           \<lparr>iri := Some ''https://example.org/a''\<rparr>"
        "(fp_zero [] :: (unit, unit, unit, unit, string) FollowersProperty)
           \<lparr>CollectionPageMember := Some ()\<rparr>"
        "(fp_zero [] :: (unit, unit, unit, unit, string) FollowersProperty)
           \<lparr>fp_unknown := RBool True\<rparr>"
        "(it_zero [])\<lparr>anyURIMember := Some ''https://example.org/a''\<rparr>"
        "(it_zero [] :: string TypePropertyIterator)
           \<lparr>hasStringMember := True, stringMember := ''Note''\<rparr>"
        "(it_zero [] :: string TypePropertyIterator)\<lparr>it_unknown := RBool True\<rparr>"]
  by (simp add: fp_defs it_defs fp_zero_def it_zero_def)

text \<open>
  Claim C3 says that a cell with no committed kind is less than every cell with a
  committed kind, the IRI included, and never the other way round. Here that statement
  is false: against a cell holding an IRI the order is the opposite.
\<close>

theorem LessThan_uncommitted_iri_counterexample:
  "\<not> LessThan sample_url sample_manager (fp_zero [])
        ((fp_zero [])\<lparr>iri := Some ''https://example.org/a''\<rparr>)
   \<and> LessThan sample_url sample_manager
        ((fp_zero [])\<lparr>iri := Some ''https://example.org/a''\<rparr>) (fp_zero [])"
  by (simp add: LessThan_def fp_defs fp_zero_def)

text \<open>
  Claim C3, as amended. Let \<open>c1\<close> be a cell with no committed kind. If \<open>c2\<close> holds a
  structured kind, \<open>c1\<close> is less than \<open>c2\<close> and \<open>c2\<close> is not less than \<open>c1\<close>. If the
  committed kind of \<open>c2\<close> is the IRI, it is \<open>c2\<close> that is less than \<open>c1\<close>. If \<open>c2\<close>
  has no committed kind either, neither is less than the other.
\<close>

theorem LessThan_uncommitted:
  assumes "\<not> HasAny c1"
  shows "(IsOrderedCollection c2 \<or> IsCollection c2 \<or> IsCollectionPage c2 \<or>
            IsOrderedCollectionPage c2 \<longrightarrow>
            LessThan U M c1 c2 \<and> \<not> LessThan U M c2 c1) \<and>
         (IsIRI c2 \<and> \<not> (IsOrderedCollection c2 \<or> IsCollection c2 \<or> IsCollectionPage c2 \<or>
            IsOrderedCollectionPage c2) \<longrightarrow>
            \<not> LessThan U M c1 c2 \<and> LessThan U M c2 c1) \<and>
         (\<not> HasAny c2 \<longrightarrow> \<not> LessThan U M c1 c2 \<and> \<not> LessThan U M c2 c1)"
  using assms by (auto simp add: LessThan_def fp_defs Let_def)

theorem LessThan_uncommitted_witness:
  "\<not> HasAny (fp_zero [] :: (unit, unit, unit, unit, string) FollowersProperty) \<and>
   LessThan sample_url sample_manager (fp_zero [])
     ((fp_zero [])\<lparr>CollectionMember := Some ()\<rparr>) \<and>
   \<not> LessThan sample_url sample_manager
     ((fp_zero [])\<lparr>CollectionMember := Some ()\<rparr>) (fp_zero []) \<and>
   LessThan sample_url sample_manager
     ((fp_zero [])\<lparr>iri := Some ''https://example.org/a''\<rparr>) (fp_zero []) \<and>
   \<not> LessThan sample_url sample_manager (fp_zero [])
     ((fp_zero [])\<lparr>fp_unknown := RBool True\<rparr>) \<and>
   \<not> LessThan sample_url sample_manager
     ((fp_zero [])\<lparr>fp_unknown := RBool True\<rparr>) (fp_zero [])"
proof -
  have h: "\<not> HasAny (fp_zero [] :: (unit, unit, unit, unit, string) FollowersProperty)"
    by (simp add: fp_defs fp_zero_def)
  show ?thesis
    using h
      LessThan_uncommitted [OF h, of "(fp_zero [])\<lparr>CollectionMember := Some ()\<rparr>"
        sample_url sample_manager]
      LessThan_uncommitted [OF h, of "(fp_zero [])\<lparr>iri := Some ''https://example.org/a''\<rparr>"
        sample_url sample_manager]
      LessThan_uncommitted [OF h, of "(fp_zero [])\<lparr>fp_unknown := RBool True\<rparr>"
        sample_url sample_manager]
    by (simp add: fp_defs fp_zero_def)
qed

section \<open>Mutual exclusion of the kinds of a cell\<close>




section \<open>Kind dispatch\<close>

lemma parse_kinds_none:
  "(\<forall>kvs. i = RMap kvs \<longrightarrow>
      DeserializeOrderedCollectionActivityStreams M (map_of kvs) aliasMap = None \<and>
      DeserializeCollectionActivityStreams M (map_of kvs) aliasMap = None \<and>
      DeserializeCollectionPageActivityStreams M (map_of kvs) aliasMap = None \<and>
      DeserializeOrderedCollectionPageActivityStreams M (map_of kvs) aliasMap = None)
   \<Longrightarrow> parse_kinds M alias i aliasMap = None"
  by (cases i) (simp_all add: parse_kinds_def)

lemma followers_absent:
  "m (prop_name (alias_of aliasMap) ''followers'') = None \<Longrightarrow>
     DeserializeFollowersProperty U M m aliasMap = Inr None"
  by (simp add: DeserializeFollowersProperty_def Let_def)

lemma followers_present:
  "m (prop_name (alias_of aliasMap) ''followers'') = Some i \<Longrightarrow>
     DeserializeFollowersProperty U M m aliasMap =
       Inr (Some (case parse_iri U i of
                    Some u \<Rightarrow> (fp_zero (alias_of aliasMap))\<lparr>iri := Some u\<rparr>
                  | None \<Rightarrow>
                      (case parse_kinds M (alias_of aliasMap) i aliasMap of
                         Some this \<Rightarrow> this
                       | None \<Rightarrow> (fp_zero (alias_of aliasMap))\<lparr>fp_unknown := i\<rparr>)))"
  by (simp add: DeserializeFollowersProperty_def Let_def split: option.splits)

lemma iterator_result:
  "deserializeTypePropertyIterator V x aliasMap =
     Inr (Some (case DeserializeAnyURI V x of
                  Some v \<Rightarrow> (it_zero (alias_of aliasMap))\<lparr>anyURIMember := Some v\<rparr>
                | None \<Rightarrow>
                    (case DeserializeString V x of
                       Some v \<Rightarrow>
                         (it_zero (alias_of aliasMap))
                           \<lparr>hasStringMember := True, stringMember := v\<rparr>
                     | None \<Rightarrow> (it_zero (alias_of aliasMap))\<lparr>it_unknown := x\<rparr>)))"
  by (simp add: deserializeTypePropertyIterator_def Let_def split: option.splits)

text \<open>
  Claim C9. For every document, wire value, alias table and collaborators,
  \<open>DeserializeFollowersProperty\<close> returns no error: with the key absent it returns no
  property and no error, and with the key present it returns a property, which, when
  the value is not a map that one of the four structured deserializers accepts, holds
  the IRI if the value is a string that parses with a scheme and the value itself as
  unknown otherwise. \<open>deserializeTypePropertyIterator\<close> always returns an iterator
  and no error, and the iterator holds the value as unknown when neither value parser
  accepts it.
\<close>

theorem kind_dispatch_never_errors:
  "(\<exists>r. DeserializeFollowersProperty U M m aliasMap = Inr r) \<and>
   (m (prop_name (alias_of aliasMap) ''followers'') = None \<longrightarrow>
      DeserializeFollowersProperty U M m aliasMap = Inr None) \<and>
   (\<forall>i. m (prop_name (alias_of aliasMap) ''followers'') = Some i \<longrightarrow>
      (\<exists>p. DeserializeFollowersProperty U M m aliasMap = Inr (Some p) \<and>
           ((\<forall>kvs. i = RMap kvs \<longrightarrow>
               DeserializeOrderedCollectionActivityStreams M (map_of kvs) aliasMap = None \<and>
               DeserializeCollectionActivityStreams M (map_of kvs) aliasMap = None \<and>
               DeserializeCollectionPageActivityStreams M (map_of kvs) aliasMap = None \<and>
               DeserializeOrderedCollectionPageActivityStreams M (map_of kvs) aliasMap = None)
            \<longrightarrow>
              p = (case parse_iri U i of
                     Some u \<Rightarrow> (fp_zero (alias_of aliasMap))\<lparr>iri := Some u\<rparr>
                   | None \<Rightarrow> (fp_zero (alias_of aliasMap))\<lparr>fp_unknown := i\<rparr>)))) \<and>
   (\<exists>p. deserializeTypePropertyIterator V x aliasMap = Inr (Some p) \<and>
        (DeserializeAnyURI V x = None \<and> DeserializeString V x = None \<longrightarrow>
           p = (it_zero (alias_of aliasMap))\<lparr>it_unknown := x\<rparr>))"
proof (intro conjI)
  show "\<exists>r. DeserializeFollowersProperty U M m aliasMap = Inr r"
    by (cases "m (prop_name (alias_of aliasMap) ''followers'')")
       (simp_all add: followers_absent followers_present)
  show "m (prop_name (alias_of aliasMap) ''followers'') = None \<longrightarrow>
      DeserializeFollowersProperty U M m aliasMap = Inr None"
    by (simp add: followers_absent)
  show "\<forall>i. m (prop_name (alias_of aliasMap) ''followers'') = Some i \<longrightarrow>
      (\<exists>p. DeserializeFollowersProperty U M m aliasMap = Inr (Some p) \<and>
           ((\<forall>kvs. i = RMap kvs \<longrightarrow>
               DeserializeOrderedCollectionActivityStreams M (map_of kvs) aliasMap = None \<and>
               DeserializeCollectionActivityStreams M (map_of kvs) aliasMap = None \<and>
               DeserializeCollectionPageActivityStreams M (map_of kvs) aliasMap = None \<and>
               DeserializeOrderedCollectionPageActivityStreams M (map_of kvs) aliasMap = None)
            \<longrightarrow>
              p = (case parse_iri U i of
                     Some u \<Rightarrow> (fp_zero (alias_of aliasMap))\<lparr>iri := Some u\<rparr>
                   | None \<Rightarrow> (fp_zero (alias_of aliasMap))\<lparr>fp_unknown := i\<rparr>)))"
    by (auto simp add: followers_present parse_kinds_none split: option.splits)
  show "\<exists>p. deserializeTypePropertyIterator V x aliasMap = Inr (Some p) \<and>
        (DeserializeAnyURI V x = None \<and> DeserializeString V x = None \<longrightarrow>
           p = (it_zero (alias_of aliasMap))\<lparr>it_unknown := x\<rparr>)"
    by (simp add: iterator_result)
qed

text \<open>
  The theorem at work: an absent key, a string with a scheme, a number, and a number as
  an element of "type".
\<close>

theorem kind_dispatch_never_errors_witness:
  "DeserializeFollowersProperty sample_url sample_manager
     [''name'' \<mapsto> RString ''x''] Map.empty = Inr None \<and>
   DeserializeFollowersProperty sample_url sample_manager
     [''followers'' \<mapsto> RString ''https://example.org/f''] Map.empty =
     Inr (Some ((fp_zero [])\<lparr>iri := Some ''https://example.org/f''\<rparr>)) \<and>
   DeserializeFollowersProperty sample_url sample_manager
     [''followers'' \<mapsto> RNumber 5] Map.empty =
     Inr (Some ((fp_zero [])\<lparr>fp_unknown := RNumber 5\<rparr>)) \<and>
   deserializeTypePropertyIterator sample_values (RNumber 5) Map.empty =
     Inr (Some ((it_zero [])\<lparr>it_unknown := RNumber 5\<rparr>))"
  using
    kind_dispatch_never_errors [of sample_url sample_manager
      "[''name'' \<mapsto> RString ''x'']" Map.empty sample_values "RNumber 5"]
    kind_dispatch_never_errors [of sample_url sample_manager
      "[''followers'' \<mapsto> RString ''https://example.org/f'']" Map.empty
      sample_values "RNumber 5"]
    kind_dispatch_never_errors [of sample_url sample_manager
      "[''followers'' \<mapsto> RNumber 5]" Map.empty sample_values "RNumber 5"]
  by (simp add: alias_of_def prop_name_def parse_iri_def sample_url_def sample_values_def)

section \<open>A single value and a list of one value\<close>

text \<open>
  Claim C7 says that for every wire value \<open>x\<close> the documents with "type" \<open>x\<close> and with
  "type" \<open>[x]\<close> deserialize alike. Here that statement is false when \<open>x\<close> is itself a
  list: the empty list gives a property with no value, the list holding the empty list
  a property with one.
\<close>

theorem type_list_value_counterexample:
  "DeserializeTypeProperty sample_values [''type'' \<mapsto> RList []] Map.empty \<noteq>
   DeserializeTypeProperty sample_values [''type'' \<mapsto> RList [RList []]] Map.empty"
  by (simp add: DeserializeTypeProperty_def alias_of_def prop_name_def Let_def
      deserializeTypePropertyIterator_def sample_values_def parse_iri_def
      set_up_iteration_def)

text \<open>
  Claim C7, as amended. For every wire value \<open>x\<close> that is not itself a list, a document
  whose "type" is \<open>x\<close> and the same document with "type" \<open>[x]\<close> deserialize to the same
  property, which has exactly one value; and \<open>Serialize\<close> of a property with exactly
  one value returns what that value serializes to, not a list around it.
\<close>

theorem type_scalar_as_singleton:
  assumes "\<And>list. x \<noteq> RList list"
  shows "DeserializeTypeProperty V (m(prop_name (alias_of aliasMap) ''type'' \<mapsto> x)) aliasMap =
         DeserializeTypeProperty V
           (m(prop_name (alias_of aliasMap) ''type'' \<mapsto> RList [x])) aliasMap \<and>
         (\<exists>p. DeserializeTypeProperty V
                 (m(prop_name (alias_of aliasMap) ''type'' \<mapsto> x)) aliasMap = Inr (Some p) \<and>
               length (properties p) = 1) \<and>
         (properties this = [it] \<longrightarrow>
            TypeProperty_Serialize V this = TypePropertyIterator_serialize V it)"
  using assms
  by (cases x)
     (auto simp add: DeserializeTypeProperty_def Let_def TypeProperty_Serialize_def
        deserializeTypePropertyIterator_def set_up_iteration_def
        split: option.splits sum.splits)

theorem type_scalar_as_singleton_witness:
  "DeserializeTypeProperty sample_values [''type'' \<mapsto> RString ''Note''] Map.empty =
     DeserializeTypeProperty sample_values [''type'' \<mapsto> RList [RString ''Note'']] Map.empty \<and>
   DeserializeTypeProperty sample_values [''type'' \<mapsto> RString ''Note''] Map.empty =
     Inr (Some \<lparr>properties =
                  [(it_zero [])\<lparr>hasStringMember := True, stringMember := ''Note''\<rparr>],
                tp_alias = []\<rparr>) \<and>
   TypeProperty_Serialize sample_values
     \<lparr>properties = [(it_zero [])\<lparr>hasStringMember := True, stringMember := ''Note''\<rparr>],
      tp_alias = []\<rparr> = Inr (RString ''Note'')"
proof -
  have h: "\<And>list. RString ''Note'' \<noteq> RList list"
    by simp
  show ?thesis
    using type_scalar_as_singleton [OF h, of sample_values Map.empty Map.empty
      "\<lparr>properties = [(it_zero [])\<lparr>hasStringMember := True, stringMember := ''Note''\<rparr>],
        tp_alias = []\<rparr>"
      "(it_zero [])\<lparr>hasStringMember := True, stringMember := ''Note''\<rparr>"]
    by (simp add: DeserializeTypeProperty_def alias_of_def prop_name_def Let_def
        deserializeTypePropertyIterator_def sample_values_def parse_iri_def
        sample_url_def set_up_iteration_def it_zero_def TypePropertyIterator_serialize_def
        it_defs)
qed

section \<open>Deserializing an OrderedCollectionPage\<close>

lemma deserialize_list_total:
  "\<exists>qs. deserialize_list V xs aliasMap ps = Inr (ps @ qs) \<and> length qs = length xs"
proof (induction xs arbitrary: ps)
  case Nil
  then show ?case by simp
next
  case (Cons x xs)
  obtain p where p: "deserializeTypePropertyIterator V x aliasMap = Inr (Some p)"
    by (auto simp add: iterator_result)
  from Cons [of "ps @ [p]"] obtain qs where
    "deserialize_list V xs aliasMap (ps @ [p]) = Inr ((ps @ [p]) @ qs)" "length qs = length xs"
    by blast
  with p show ?case by (intro exI [of _ "p # qs"]) simp
qed

lemma DeserializeTypeProperty_total:
  "\<exists>t. DeserializeTypeProperty V m aliasMap = Inr t"
proof (cases "m (prop_name (alias_of aliasMap) ''type'')")
  case None
  then show ?thesis by (simp add: DeserializeTypeProperty_def Let_def)
next
  case (Some i)
  show ?thesis
  proof (cases "\<exists>list. i = RList list")
    case True
    then obtain list where "i = RList list" by blast
    moreover obtain qs where "deserialize_list V list aliasMap [] = Inr ([] @ qs)"
      using deserialize_list_total [of V list aliasMap "[]"] by blast
    ultimately show ?thesis using Some
      by (simp add: DeserializeTypeProperty_def Let_def)
  next
    case False
    then show ?thesis using Some
      by (cases i) (simp_all add: DeserializeTypeProperty_def Let_def iterator_result)
  qed
qed

lemma deserialize_fields_frame:
  "deserialize_fields P ns m aliasMap this = Inr that \<Longrightarrow>
     Type that = Type this \<and> ocp_alias that = ocp_alias this \<and>
     ocp_unknown that = ocp_unknown this"
proof (induction ns arbitrary: this)
  case Nil
  then show ?case by simp
next
  case (Cons n ns)
  then show ?case
    by (auto split: sum.splits option.splits)
qed

lemma deserialize_fields_error:
  "deserialize_fields P ns m aliasMap this = Inl err \<Longrightarrow>
     \<exists>n \<in> set ns. DeserializeProperty P n m aliasMap = Inl err"
proof (induction ns arbitrary: this)
  case Nil
  then show ?case by simp
next
  case (Cons n ns)
  then show ?case
    by (auto split: sum.splits option.splits)
qed

lemma deserialize_fields_ok:
  "(\<And>n. n \<in> set ns \<Longrightarrow> \<exists>r. DeserializeProperty P n m aliasMap = Inr r) \<Longrightarrow>
     \<exists>that. deserialize_fields P ns m aliasMap this = Inr that"
proof (induction ns arbitrary: this)
  case Nil
  then show ?case by simp
next
  case (Cons n ns)
  from Cons.prems [of n] obtain r where r: "DeserializeProperty P n m aliasMap = Inr r" by auto
  have rest: "\<And>k. k \<in> set ns \<Longrightarrow> \<exists>r. DeserializeProperty P k m aliasMap = Inr r"
    using Cons.prems by simp
  show ?case
    using r Cons.IH [OF rest] by (cases r) simp_all
qed


lemma type_found_iff:
  "type_found aliasPrefix arr \<longleftrightarrow>
     (\<exists>ts. RString ts \<in> set arr \<and> TrimPrefix ts aliasPrefix = ''OrderedCollectionPage'')"
proof (induction arr)
  case Nil
  then show ?case by simp
next
  case (Cons e arr)
  then show ?case by (cases e) auto
qed

lemma Deserialize_type_error:
  "check_type (alias_prefix_of aliasMap) m = Some err \<Longrightarrow>
     DeserializeOrderedCollectionPage P V m aliasMap = Inl err"
  by (simp add: DeserializeOrderedCollectionPage_def Let_def)

lemma Deserialize_success:
  fixes that :: "('p, 'u) OrderedCollectionPage"
  assumes "DeserializeOrderedCollectionPage P V m aliasMap = Inr that"
  shows "check_type (alias_prefix_of aliasMap) m = None \<and>
         ocp_unknown that = collect_unknown m \<and>
         ocp_alias that = alias_of aliasMap \<and>
         DeserializeTypeProperty V m aliasMap = Inr (Type that)"
proof -
  let ?t0 = "\<lparr>Fields = Map.empty, Type = None, ocp_alias = alias_of aliasMap,
                 ocp_unknown = Map.empty\<rparr> :: ('p, 'u) OrderedCollectionPage"
  from assms have c: "check_type (alias_prefix_of aliasMap) m = None"
    by (cases "check_type (alias_prefix_of aliasMap) m")
       (simp_all add: DeserializeOrderedCollectionPage_def Let_def)
  from assms c obtain this1 where
    s1: "deserialize_fields P fields_before_type m aliasMap ?t0 = Inr this1"
    by (cases "deserialize_fields P fields_before_type m aliasMap ?t0")
       (simp_all add: DeserializeOrderedCollectionPage_def Let_def)
  from assms c s1 obtain t where t: "DeserializeTypeProperty V m aliasMap = Inr t"
    by (cases "DeserializeTypeProperty V m aliasMap")
       (simp_all add: DeserializeOrderedCollectionPage_def Let_def)
  let ?t2 = "case t of None \<Rightarrow> this1 | Some p \<Rightarrow> this1\<lparr>Type := Some p\<rparr>"
  from assms c s1 t obtain this2 where
    s2: "deserialize_fields P fields_after_type m aliasMap ?t2 = Inr this2"
    and r: "that = this2\<lparr>ocp_unknown := collect_unknown m\<rparr>"
    by (cases "deserialize_fields P fields_after_type m aliasMap ?t2")
       (simp_all add: DeserializeOrderedCollectionPage_def Let_def)
  from deserialize_fields_frame [OF s1] have f1: "Type this1 = None"
    "ocp_alias this1 = alias_of aliasMap" by simp_all
  from deserialize_fields_frame [OF s2] f1 have "Type this2 = t"
    "ocp_alias this2 = alias_of aliasMap" by (simp_all split: option.splits)
  with c t r show ?thesis by simp
qed

lemma Deserialize_property_error:
  fixes P :: "'p property_codecs" and V :: "'u value_kinds"
  assumes "check_type (alias_prefix_of aliasMap) m = None"
    and "DeserializeOrderedCollectionPage P V m aliasMap = Inl err"
  shows "\<exists>n \<in> set (fields_before_type @ fields_after_type).
           DeserializeProperty P n m aliasMap = Inl err"
proof -
  let ?t0 = "\<lparr>Fields = Map.empty, Type = None, ocp_alias = alias_of aliasMap,
                 ocp_unknown = Map.empty\<rparr> :: ('p, 'u) OrderedCollectionPage"
  obtain t where t: "DeserializeTypeProperty V m aliasMap = Inr t"
    using DeserializeTypeProperty_total by blast
  show ?thesis
  proof (cases "deserialize_fields P fields_before_type m aliasMap ?t0")
    case (Inl e)
    with assms have "e = err"
      by (simp add: DeserializeOrderedCollectionPage_def Let_def)
    with Inl deserialize_fields_error [of P fields_before_type m aliasMap ?t0 err]
    show ?thesis by auto
  next
    case (Inr this1)
    let ?t2 = "case t of None \<Rightarrow> this1 | Some p \<Rightarrow> this1\<lparr>Type := Some p\<rparr>"
    from assms Inr t have "deserialize_fields P fields_after_type m aliasMap ?t2 = Inl err"
      by (cases "deserialize_fields P fields_after_type m aliasMap ?t2")
         (simp_all add: DeserializeOrderedCollectionPage_def Let_def)
    from deserialize_fields_error [OF this] show ?thesis by auto
  qed
qed

lemma Deserialize_ok:
  assumes "check_type (alias_prefix_of aliasMap) m = None"
    and "\<And>n. n \<in> set (fields_before_type @ fields_after_type) \<Longrightarrow>
           \<exists>r. DeserializeProperty P n m aliasMap = Inr r"
  shows "\<exists>that. DeserializeOrderedCollectionPage P V m aliasMap = Inr that"
proof (cases "DeserializeOrderedCollectionPage P V m aliasMap")
  case (Inl err)
  from Deserialize_property_error [OF assms(1) Inl] assms(2) show ?thesis by force
next
  case (Inr that)
  then show ?thesis by simp
qed

lemma check_type_cases:
  "check_type ap m =
     (case m ''type'' of
        None \<Rightarrow> Some NoTypeProperty
      | Some (RString ts) \<Rightarrow>
          if TrimPrefix ts ap = ''OrderedCollectionPage'' then None
          else Some (TypeIsNotOfType (TrimPrefix ts ap))
      | Some (RList arr) \<Rightarrow>
          if (\<exists>ts. RString ts \<in> set arr \<and> TrimPrefix ts ap = ''OrderedCollectionPage'')
          then None else Some TypeValueNotFound
      | Some v \<Rightarrow> Some (TypeUnrecognized v))"
  by (auto simp add: check_type_def Let_def type_found_iff split: option.splits raw.splits)

lemma sample_codecs_no_error:
  "\<exists>r. DeserializeProperty sample_codecs n m aliasMap = Inr r"
  by (simp add: sample_codecs_def split: option.splits)

lemmas eval_defs = DeserializeOrderedCollectionPage_def check_type_def alias_prefix_of_def
  alias_of_def as_aliases_def activitystreams_ns_def TrimPrefix_def prop_name_def
  fields_before_type_def fields_after_type_def sample_codecs_def sample_values_def
  sample_url_def parse_iri_def DeserializeTypeProperty_def deserializeTypePropertyIterator_def
  set_up_iteration_def it_zero_def collect_unknown_def known_keys_def
  OrderedCollectionPage_Serialize_def serialize_known_def serialize_type_def
  TypeProperty_Serialize_def TypePropertyIterator_serialize_def it_defs Let_def

text \<open>
  Claim C5. \<open>DeserializeOrderedCollectionPage\<close> returns the missing-type error for
  every map with no "type" key; the type-mismatch error when the "type" value is a
  string that, once the alias prefix is cut, is not "OrderedCollectionPage", or an array
  none of whose string elements is "OrderedCollectionPage" once the prefix is cut; and
  the malformed-type error when the value is neither a string nor an array. When the
  value is such a string, or an array that holds one, type validation passes: the only
  error that can still be returned is one handed back by the deserializer of a property,
  and when no property's deserializer returns an error the result is an entity.
\<close>

theorem type_validation:
  "(m ''type'' = None \<longrightarrow>
      DeserializeOrderedCollectionPage P V m aliasMap = Inl NoTypeProperty) \<and>
   (\<forall>ts. m ''type'' = Some (RString ts) \<and>
         TrimPrefix ts (alias_prefix_of aliasMap) \<noteq> ''OrderedCollectionPage'' \<longrightarrow>
      DeserializeOrderedCollectionPage P V m aliasMap =
        Inl (TypeIsNotOfType (TrimPrefix ts (alias_prefix_of aliasMap)))) \<and>
   (\<forall>arr. m ''type'' = Some (RList arr) \<and>
         (\<forall>ts. RString ts \<in> set arr \<longrightarrow>
            TrimPrefix ts (alias_prefix_of aliasMap) \<noteq> ''OrderedCollectionPage'') \<longrightarrow>
      DeserializeOrderedCollectionPage P V m aliasMap = Inl TypeValueNotFound) \<and>
   (\<forall>v. m ''type'' = Some v \<and> (\<forall>ts. v \<noteq> RString ts) \<and> (\<forall>arr. v \<noteq> RList arr) \<longrightarrow>
      DeserializeOrderedCollectionPage P V m aliasMap = Inl (TypeUnrecognized v)) \<and>
   ((\<exists>ts. m ''type'' = Some (RString ts) \<and>
          TrimPrefix ts (alias_prefix_of aliasMap) = ''OrderedCollectionPage'') \<or>
    (\<exists>arr ts. m ''type'' = Some (RList arr) \<and> RString ts \<in> set arr \<and>
          TrimPrefix ts (alias_prefix_of aliasMap) = ''OrderedCollectionPage'') \<longrightarrow>
      check_type (alias_prefix_of aliasMap) m = None \<and>
      (\<forall>err. DeserializeOrderedCollectionPage P V m aliasMap = Inl err \<longrightarrow>
         (\<exists>n \<in> set (fields_before_type @ fields_after_type).
            DeserializeProperty P n m aliasMap = Inl err)) \<and>
      ((\<forall>n \<in> set (fields_before_type @ fields_after_type).
          \<exists>r. DeserializeProperty P n m aliasMap = Inr r) \<longrightarrow>
       (\<exists>that. DeserializeOrderedCollectionPage P V m aliasMap = Inr that)))"
proof (intro conjI allI impI)
  assume "m ''type'' = None"
  then show "DeserializeOrderedCollectionPage P V m aliasMap = Inl NoTypeProperty"
    by (intro Deserialize_type_error) (simp add: check_type_cases)
next
  fix ts
  assume "m ''type'' = Some (RString ts) \<and>
         TrimPrefix ts (alias_prefix_of aliasMap) \<noteq> ''OrderedCollectionPage''"
  then show "DeserializeOrderedCollectionPage P V m aliasMap =
        Inl (TypeIsNotOfType (TrimPrefix ts (alias_prefix_of aliasMap)))"
    by (intro Deserialize_type_error) (simp add: check_type_cases)
next
  fix arr
  assume "m ''type'' = Some (RList arr) \<and>
         (\<forall>ts. RString ts \<in> set arr \<longrightarrow>
            TrimPrefix ts (alias_prefix_of aliasMap) \<noteq> ''OrderedCollectionPage'')"
  then show "DeserializeOrderedCollectionPage P V m aliasMap = Inl TypeValueNotFound"
    by (intro Deserialize_type_error) (auto simp add: check_type_cases)
next
  fix v
  assume "m ''type'' = Some v \<and> (\<forall>ts. v \<noteq> RString ts) \<and> (\<forall>arr. v \<noteq> RList arr)"
  then show "DeserializeOrderedCollectionPage P V m aliasMap = Inl (TypeUnrecognized v)"
    by (intro Deserialize_type_error) (cases v; simp add: check_type_cases)
next
  assume a: "(\<exists>ts. m ''type'' = Some (RString ts) \<and>
          TrimPrefix ts (alias_prefix_of aliasMap) = ''OrderedCollectionPage'') \<or>
    (\<exists>arr ts. m ''type'' = Some (RList arr) \<and> RString ts \<in> set arr \<and>
          TrimPrefix ts (alias_prefix_of aliasMap) = ''OrderedCollectionPage'')"
  then show c: "check_type (alias_prefix_of aliasMap) m = None"
    by (auto simp add: check_type_cases)
  {
    fix err
    assume "DeserializeOrderedCollectionPage P V m aliasMap = Inl err"
    from Deserialize_property_error [OF c this]
    show "\<exists>n \<in> set (fields_before_type @ fields_after_type).
            DeserializeProperty P n m aliasMap = Inl err" .
  }
  {
    assume "\<forall>n \<in> set (fields_before_type @ fields_after_type).
          \<exists>r. DeserializeProperty P n m aliasMap = Inr r"
    then show "\<exists>that. DeserializeOrderedCollectionPage P V m aliasMap = Inr that"
      using Deserialize_ok [OF c] by blast
  }
qed


text \<open>
  The theorem at work on the examples of the specification: no "type" key, the type
  "Foo", an array without the type, a number, and an array that holds the aliased type
  next to another one.
\<close>

theorem type_validation_witness:
  "DeserializeOrderedCollectionPage sample_codecs sample_values
     [''name'' \<mapsto> RString ''x''] Map.empty = Inl NoTypeProperty \<and>
   DeserializeOrderedCollectionPage sample_codecs sample_values
     [''type'' \<mapsto> RString ''Foo''] Map.empty = Inl (TypeIsNotOfType ''Foo'') \<and>
   DeserializeOrderedCollectionPage sample_codecs sample_values
     [''type'' \<mapsto> RList [RString ''Note'', RNumber 1]] Map.empty = Inl TypeValueNotFound \<and>
   DeserializeOrderedCollectionPage sample_codecs sample_values
     [''type'' \<mapsto> RNumber 5] Map.empty = Inl (TypeUnrecognized (RNumber 5)) \<and>
   \<not> isl (DeserializeOrderedCollectionPage sample_codecs sample_values
     [''type'' \<mapsto> RList [RString ''Note'', RString ''as:OrderedCollectionPage'']] as_aliases)"
proof -
  have 1: "DeserializeOrderedCollectionPage sample_codecs sample_values
     [''name'' \<mapsto> RString ''x''] Map.empty = Inl NoTypeProperty"
    using type_validation [of "[''name'' \<mapsto> RString ''x'']" sample_codecs sample_values Map.empty]
    by simp
  have 2: "DeserializeOrderedCollectionPage sample_codecs sample_values
     [''type'' \<mapsto> RString ''Foo''] Map.empty = Inl (TypeIsNotOfType ''Foo'')"
    using type_validation [of "[''type'' \<mapsto> RString ''Foo'']" sample_codecs sample_values Map.empty]
    by (simp add: alias_prefix_of_def TrimPrefix_def)
  have 3: "DeserializeOrderedCollectionPage sample_codecs sample_values
     [''type'' \<mapsto> RList [RString ''Note'', RNumber 1]] Map.empty = Inl TypeValueNotFound"
    using type_validation [of "[''type'' \<mapsto> RList [RString ''Note'', RNumber 1]]"
      sample_codecs sample_values Map.empty]
    by (simp add: alias_prefix_of_def TrimPrefix_def)
  have 4: "DeserializeOrderedCollectionPage sample_codecs sample_values
     [''type'' \<mapsto> RNumber 5] Map.empty = Inl (TypeUnrecognized (RNumber 5))"
    using type_validation [of "[''type'' \<mapsto> RNumber 5]" sample_codecs sample_values Map.empty]
    by simp
  have "TrimPrefix ''as:OrderedCollectionPage'' (alias_prefix_of as_aliases) =
      ''OrderedCollectionPage''"
    by (simp add: alias_prefix_of_def TrimPrefix_def as_aliases_def)
  then have "\<exists>that. DeserializeOrderedCollectionPage sample_codecs sample_values
     [''type'' \<mapsto> RList [RString ''Note'', RString ''as:OrderedCollectionPage'']] as_aliases
     = Inr that"
    using type_validation [of "[''type'' \<mapsto> RList [RString ''Note'', RString ''as:OrderedCollectionPage'']]"
      sample_codecs sample_values as_aliases] sample_codecs_no_error
    by auto
  then have 5: "\<not> isl (DeserializeOrderedCollectionPage sample_codecs sample_values
     [''type'' \<mapsto> RList [RString ''Note'', RString ''as:OrderedCollectionPage'']] as_aliases)"
    by auto
  from 1 2 3 4 5 show ?thesis by simp
qed


section \<open>Alias-prefixed keys\<close>

text \<open>
  Claim C8, evaluated. With the alias table that maps the namespace to "as", a document
  whose type key is written "as:type" is refused for having no "type" property, although
  \<open>DeserializeTypeProperty\<close> reads that very key; and a known property written
  "as:name" is read as the property "name" and kept among the unknown properties as
  well, where the unprefixed document read without an alias keeps nothing there.
\<close>

theorem alias_prefixed_keys_evaluation:
  "DeserializeOrderedCollectionPage sample_codecs sample_values
     [''as:type'' \<mapsto> RString ''as:OrderedCollectionPage''] as_aliases = Inl NoTypeProperty \<and>
   DeserializeTypeProperty sample_values
     [''as:type'' \<mapsto> RString ''as:OrderedCollectionPage''] as_aliases =
     Inr (Some \<lparr>properties =
                  [(it_zero ''as'')\<lparr>anyURIMember := Some ''as:OrderedCollectionPage''\<rparr>],
                tp_alias = ''as''\<rparr>) \<and>
   (case DeserializeOrderedCollectionPage sample_codecs sample_values
           [''type'' \<mapsto> RString ''OrderedCollectionPage'', ''as:name'' \<mapsto> RString ''n'']
           as_aliases of
      Inl err \<Rightarrow> False
    | Inr this \<Rightarrow> Fields this ''name'' = Some (''name'', RString ''n'') \<and>
         ocp_unknown this ''as:name'' = Some (RString ''n''))
   \<and>
   (case DeserializeOrderedCollectionPage sample_codecs sample_values
           [''type'' \<mapsto> RString ''OrderedCollectionPage'', ''name'' \<mapsto> RString ''n'']
           Map.empty of
      Inl err \<Rightarrow> False
    | Inr this \<Rightarrow> Fields this ''name'' = Some (''name'', RString ''n'') \<and>
         ocp_unknown this ''name'' = None \<and> ocp_unknown this ''as:name'' = None)"
  by (simp add: eval_defs)



section \<open>Serializing an OrderedCollectionPage\<close>

lemma serialize_fields_untouched:
  "serialize_fields P ns this m0 = Inr r \<Longrightarrow>
     (\<And>n p. n \<in> set ns \<Longrightarrow> Fields this n = Some p \<Longrightarrow> Property_Name P p \<noteq> k) \<Longrightarrow>
     r k = m0 k"
proof (induction ns arbitrary: m0)
  case Nil
  then show ?case by simp
next
  case (Cons n ns)
  have rest: "\<And>n' p. n' \<in> set ns \<Longrightarrow> Fields this n' = Some p \<Longrightarrow> Property_Name P p \<noteq> k"
    using Cons.prems(2) by auto
  show ?case
  proof (cases "Fields this n")
    case None
    with Cons.prems(1) have "serialize_fields P ns this m0 = Inr r" by simp
    from Cons.IH [OF this rest] show ?thesis .
  next
    case (Some p)
    from Cons.prems(2) [of n p] Some have nk: "Property_Name P p \<noteq> k" by simp
    from Cons.prems(1) Some obtain i where i: "Property_Serialize P p = Inr i"
      by (cases "Property_Serialize P p") simp_all
    show ?thesis
    proof (cases "i = RNil")
      case True
      with Cons.prems(1) Some i have "serialize_fields P ns this m0 = Inr r" by simp
      from Cons.IH [OF this rest] show ?thesis .
    next
      case False
      with Cons.prems(1) Some i
      have "serialize_fields P ns this (m0(Property_Name P p \<mapsto> i)) = Inr r" by simp
      from Cons.IH [OF this rest] nk show ?thesis by simp
    qed
  qed
qed

lemma Serialize_result:
  "OrderedCollectionPage_Serialize P V this = Inr out \<Longrightarrow>
     \<exists>km. serialize_known P V this = Inr km \<and>
          out = (\<lambda>k. case km k of Some v \<Rightarrow> Some v | None \<Rightarrow> ocp_unknown this k)"
  by (cases "serialize_known P V this") (auto simp add: OrderedCollectionPage_Serialize_def)

lemma serialize_known_stages:
  assumes km: "serialize_known P V this = Inr km"
  obtains m1 m2 where
    "serialize_fields P fields_before_type this
       [''type'' \<mapsto> RString (prop_name (ocp_alias this) ''OrderedCollectionPage'')] = Inr m1"
    "serialize_type V this m1 = Inr m2"
    "serialize_fields P fields_after_type this m2 = Inr km"
proof -
  let ?m0 = "[''type'' \<mapsto> RString (prop_name (ocp_alias this) ''OrderedCollectionPage'')]"
  from km obtain m1 where m1: "serialize_fields P fields_before_type this ?m0 = Inr m1"
    by (cases "serialize_fields P fields_before_type this ?m0")
       (simp_all add: serialize_known_def Let_def prop_name_def)
  from km m1 obtain m2 where m2: "serialize_type V this m1 = Inr m2"
    and r: "serialize_fields P fields_after_type this m2 = Inr km"
    by (cases "serialize_type V this m1")
       (simp_all add: serialize_known_def Let_def prop_name_def)
  from m1 m2 r that show thesis by blast
qed

lemma serialize_known_type_set:
  assumes km: "serialize_known P V this = Inr km"
    and after: "\<forall>n \<in> set fields_after_type. \<forall>p. Fields this n = Some p \<longrightarrow>
                  Property_Name P p \<noteq> ''type''"
    and t: "Type this = Some t" "TypeProperty_Serialize V t = Inr i" "i \<noteq> RNil"
  shows "km ''type'' = Some i"
proof -
  from km obtain m1 m2 where m2: "serialize_type V this m1 = Inr m2"
    and r: "serialize_fields P fields_after_type this m2 = Inr km"
    by (rule serialize_known_stages)
  have "km ''type'' = m2 ''type''"
    using after by (intro serialize_fields_untouched [OF r]) blast
  with m2 t show ?thesis by (auto simp add: serialize_type_def)
qed

lemma serialize_known_type_unset:
  assumes km: "serialize_known P V this = Inr km"
    and after: "\<forall>n \<in> set fields_after_type. \<forall>p. Fields this n = Some p \<longrightarrow>
                  Property_Name P p \<noteq> ''type''"
    and before: "\<forall>n \<in> set fields_before_type. \<forall>p. Fields this n = Some p \<longrightarrow>
                  Property_Name P p \<noteq> ''type''"
    and t: "Type this = None"
  shows "km ''type'' = Some (RString (prop_name (ocp_alias this) ''OrderedCollectionPage''))"
proof -
  let ?m0 = "[''type'' \<mapsto> RString (prop_name (ocp_alias this) ''OrderedCollectionPage'')]"
  from km obtain m1 m2 where
    m1: "serialize_fields P fields_before_type this ?m0 = Inr m1"
    and m2: "serialize_type V this m1 = Inr m2"
    and r: "serialize_fields P fields_after_type this m2 = Inr km"
    by (rule serialize_known_stages)
  have "km ''type'' = m2 ''type''"
    using after by (intro serialize_fields_untouched [OF r]) blast
  moreover have "m1 ''type'' = ?m0 ''type''"
    using before by (intro serialize_fields_untouched [OF m1]) blast
  moreover from t m2 have "m2 = m1" by (auto simp add: serialize_type_def)
  ultimately show ?thesis by simp
qed

lemma set_up_iteration_length: "length (set_up_iteration ps) = length ps"
  by (simp add: set_up_iteration_def)

lemma Deserialize_Type_present:
  fixes this :: "('p, 'u) OrderedCollectionPage"
  assumes a: "alias_of aliasMap = []"
    and d: "DeserializeOrderedCollectionPage P V m aliasMap = Inr this"
  shows "\<exists>t. Type this = Some t \<and> DeserializeTypeProperty V m aliasMap = Inr (Some t) \<and>
             properties t \<noteq> []"
proof -
  from Deserialize_success [OF d] have c: "check_type (alias_prefix_of aliasMap) m = None"
    and t0: "DeserializeTypeProperty V m aliasMap = Inr (Type this)" by simp_all
  from t0 have t: "Inr (Type this) = DeserializeTypeProperty V m aliasMap" by simp
  from c obtain i where i: "m ''type'' = Some i"
    by (cases "m ''type''") (simp_all add: check_type_cases)
  show ?thesis
  proof (cases "\<exists>arr. i = RList arr")
    case True
    then obtain arr where arr: "i = RList arr" by blast
    with c i have "arr \<noteq> []" by (auto simp add: check_type_cases split: if_splits)
    moreover obtain qs where "deserialize_list V arr aliasMap [] = Inr ([] @ qs)"
      "length qs = length arr"
      using deserialize_list_total [of V arr aliasMap "[]"] by blast
    ultimately have "length (set_up_iteration qs) \<noteq> 0"
      and ty: "Type this = Some \<lparr>properties = set_up_iteration qs, tp_alias = []\<rparr>"
      using t a i arr
      by (auto simp add: DeserializeTypeProperty_def Let_def prop_name_def
          set_up_iteration_length)
    then have "set_up_iteration qs \<noteq> []" by auto
    with t0 ty show ?thesis by simp
  next
    case False
    then have "\<exists>p. Type this = Some \<lparr>properties = [p], tp_alias = []\<rparr>"
      using t a i
      by (cases i)
         (auto simp add: DeserializeTypeProperty_def Let_def prop_name_def iterator_result
            set_up_iteration_def)
    with t0 show ?thesis by auto
  qed
qed

text \<open>
  Claim C6. When \<open>DeserializeOrderedCollectionPage\<close> returns an entity, its unknown
  properties hold every key of the document that is not in the exclusion list, with the
  document's value, and none of the keys in the list. \<open>Serialize\<close> returns, for
  every key that the known properties have written, the value they wrote, and for every
  other key what the unknown properties hold under it: an unknown property is written
  verbatim unless its key is taken, and then it is dropped. Hence a key outside the
  list that no known property has written is serialized with the document's value.
\<close>

theorem extension_bag_preserved:
  "(DeserializeOrderedCollectionPage P V m aliasMap = Inr this \<longrightarrow>
      (\<forall>k. k \<notin> set known_keys \<longrightarrow> ocp_unknown this k = m k) \<and>
      (\<forall>k. k \<in> set known_keys \<longrightarrow> ocp_unknown this k = None)) \<and>
   (OrderedCollectionPage_Serialize P V that = Inr out \<longrightarrow>
      (\<exists>km. serialize_known P V that = Inr km \<and>
         (\<forall>k. (km k = None \<longrightarrow> out k = ocp_unknown that k) \<and>
              (\<forall>v. km k = Some v \<longrightarrow> out k = Some v)))) \<and>
   (DeserializeOrderedCollectionPage P V m aliasMap = Inr this \<and>
    OrderedCollectionPage_Serialize P V this = Inr out' \<longrightarrow>
      (\<exists>km. serialize_known P V this = Inr km \<and>
         (\<forall>k. k \<notin> set known_keys \<and> km k = None \<longrightarrow> out' k = m k)))"
proof (intro conjI impI)
  assume "DeserializeOrderedCollectionPage P V m aliasMap = Inr this"
  from Deserialize_success [OF this] show "\<forall>k. k \<notin> set known_keys \<longrightarrow> ocp_unknown this k = m k"
    and "\<forall>k. k \<in> set known_keys \<longrightarrow> ocp_unknown this k = None"
    by (simp_all add: collect_unknown_def)
next
  assume "OrderedCollectionPage_Serialize P V that = Inr out"
  from Serialize_result [OF this]
  show "\<exists>km. serialize_known P V that = Inr km \<and>
         (\<forall>k. (km k = None \<longrightarrow> out k = ocp_unknown that k) \<and>
              (\<forall>v. km k = Some v \<longrightarrow> out k = Some v))"
    by auto
next
  assume "DeserializeOrderedCollectionPage P V m aliasMap = Inr this \<and>
    OrderedCollectionPage_Serialize P V this = Inr out'"
  then have d: "DeserializeOrderedCollectionPage P V m aliasMap = Inr this"
    and s: "OrderedCollectionPage_Serialize P V this = Inr out'" by simp_all
  from Deserialize_success [OF d] Serialize_result [OF s]
  show "\<exists>km. serialize_known P V this = Inr km \<and>
         (\<forall>k. k \<notin> set known_keys \<and> km k = None \<longrightarrow> out' k = m k)"
    by (auto simp add: collect_unknown_def)
qed


text \<open>
  The theorem at work: a document with an extension key, and an entity whose unknown
  properties hold the key of a known one.
\<close>

theorem extension_bag_preserved_witness:
  "(case DeserializeOrderedCollectionPage sample_codecs sample_values
           [''type'' \<mapsto> RString ''OrderedCollectionPage'', ''name'' \<mapsto> RString ''n'',
            ''ext'' \<mapsto> RNumber 5] Map.empty of
      Inl err \<Rightarrow> False
    | Inr this \<Rightarrow>
        ocp_unknown this ''ext'' = Some (RNumber 5) \<and> ocp_unknown this ''name'' = None) \<and>
   (case OrderedCollectionPage_Serialize sample_codecs sample_values
           \<lparr>Fields = [''name'' \<mapsto> (''name'', RString ''n'')], Type = None, ocp_alias = [],
            ocp_unknown = [''name'' \<mapsto> RString ''other'', ''ext'' \<mapsto> RNumber 5]\<rparr> of
      Inl err \<Rightarrow> False
    | Inr out \<Rightarrow>
        out ''name'' = Some (RString ''n'') \<and> out ''ext'' = Some (RNumber 5))"
proof -
  let ?m = "[''type'' \<mapsto> RString ''OrderedCollectionPage'', ''name'' \<mapsto> RString ''n'',
            ''ext'' \<mapsto> RNumber 5]"
  let ?that = "\<lparr>Fields = [''name'' \<mapsto> (''name'', RString ''n'')], Type = None,
      ocp_alias = [],
      ocp_unknown = [''name'' \<mapsto> RString ''other'', ''ext'' \<mapsto> RNumber 5]\<rparr>
      :: (string \<times> raw, string) OrderedCollectionPage"
  obtain this where d: "DeserializeOrderedCollectionPage sample_codecs sample_values
      ?m Map.empty = Inr this"
    by (cases "DeserializeOrderedCollectionPage sample_codecs sample_values ?m Map.empty")
       (simp_all add: eval_defs)
  obtain out where s: "OrderedCollectionPage_Serialize sample_codecs sample_values ?that
      = Inr out"
    by (cases "OrderedCollectionPage_Serialize sample_codecs sample_values ?that")
       (simp_all add: eval_defs)
  have k: "''ext'' \<notin> set known_keys" "''name'' \<in> set known_keys"
    by (simp_all add: known_keys_def)
  have km: "serialize_known sample_codecs sample_values ?that =
      Inr [''type'' \<mapsto> RString ''OrderedCollectionPage'', ''name'' \<mapsto> RString ''n'']"
    by (simp add: eval_defs)
  from extension_bag_preserved [of sample_codecs sample_values ?m Map.empty this ?that out out] d s k km
  show ?thesis by simp
qed

section \<open>The "type" entry of a serialized OrderedCollectionPage\<close>

text \<open>
  Claim C10, evaluated. The claim says that for an entity produced by
  \<open>DeserializeOrderedCollectionPage\<close> the emitted "type" comes from what the Type
  property holds, such as the whole array of types, and not from the fixed type name.
  With the alias "as" registered, the document whose "type" is the array of
  "as:OrderedCollectionPage" and "as:Note" passes type validation, which reads the key
  "type", but \<open>DeserializeTypeProperty\<close> looks for the key "as:type": the entity has
  no Type property, and \<open>Serialize\<close> emits the fixed, alias-prefixed name alone.
\<close>

theorem type_entry_lost_with_alias:
  "(case DeserializeOrderedCollectionPage sample_codecs sample_values
           [''type'' \<mapsto> RList [RString ''as:OrderedCollectionPage'', RString ''as:Note'']]
           as_aliases of
      Inl err \<Rightarrow> False
    | Inr this \<Rightarrow>
        Type this = None \<and>
        (case OrderedCollectionPage_Serialize sample_codecs sample_values this of
           Inl err \<Rightarrow> False
         | Inr out \<Rightarrow> out ''type'' = Some (RString ''as:OrderedCollectionPage'')))"
  by (simp add: eval_defs)

text \<open>
  What \<open>Serialize\<close> does with the "type" entry otherwise. Let it return \<open>out\<close> for
  an entity whose properties serialized after "type" (updated, url) are not named
  "type". If the Type property is set and serializes to a value that is not nil, \<open>out\<close>
  holds that value under "type" and not the fixed name; if it is not set and no property
  is named "type", \<open>out\<close> holds the fixed name, alias-prefixed when the entity has an
  alias. An entity that \<open>DeserializeOrderedCollectionPage\<close> returns when no alias is
  registered for the namespace has a Type property, deserialized from the document's
  "type" entry and not empty, so the emitted "type" is what that property serializes to;
  the same holds for \<open>NewOrderedCollectionPage\<close>, whose Type property holds the type
  name.
\<close>

theorem type_entry_from_Type_property:
  assumes ser: "OrderedCollectionPage_Serialize P V this = Inr out"
    and after: "\<forall>n \<in> set fields_after_type. \<forall>p. Fields this n = Some p \<longrightarrow>
                  Property_Name P p \<noteq> ''type''"
  shows "(\<forall>t i. Type this = Some t \<and> TypeProperty_Serialize V t = Inr i \<and> i \<noteq> RNil \<longrightarrow>
            out ''type'' = Some i) \<and>
         (Type this = None \<and>
          (\<forall>n \<in> set fields_before_type. \<forall>p. Fields this n = Some p \<longrightarrow>
             Property_Name P p \<noteq> ''type'') \<longrightarrow>
            out ''type'' =
              Some (RString (prop_name (ocp_alias this) ''OrderedCollectionPage''))) \<and>
         (\<forall>m aliasMap.
            alias_of aliasMap = [] \<and>
            DeserializeOrderedCollectionPage P V m aliasMap = Inr this \<longrightarrow>
            (\<exists>t. Type this = Some t \<and> DeserializeTypeProperty V m aliasMap = Inr (Some t) \<and>
                 properties t \<noteq> [] \<and>
                 (\<forall>i. TypeProperty_Serialize V t = Inr i \<and> i \<noteq> RNil \<longrightarrow>
                    out ''type'' = Some i))) \<and>
         (this = NewOrderedCollectionPage \<longrightarrow>
            (\<forall>i. SerializeString V ''OrderedCollectionPage'' = Inr i \<and> i \<noteq> RNil \<longrightarrow>
               out ''type'' = Some i))"
proof -
  from Serialize_result [OF ser] obtain km where km: "serialize_known P V this = Inr km"
    and out: "out = (\<lambda>k. case km k of Some v \<Rightarrow> Some v | None \<Rightarrow> ocp_unknown this k)"
    by blast
  have 1: "\<forall>t i. Type this = Some t \<and> TypeProperty_Serialize V t = Inr i \<and> i \<noteq> RNil \<longrightarrow>
            out ''type'' = Some i"
    using serialize_known_type_set [OF km after] out by simp
  have 2: "Type this = None \<and>
          (\<forall>n \<in> set fields_before_type. \<forall>p. Fields this n = Some p \<longrightarrow>
             Property_Name P p \<noteq> ''type'') \<longrightarrow>
            out ''type'' =
              Some (RString (prop_name (ocp_alias this) ''OrderedCollectionPage''))"
  proof
    assume h: "Type this = None \<and>
          (\<forall>n \<in> set fields_before_type. \<forall>p. Fields this n = Some p \<longrightarrow>
             Property_Name P p \<noteq> ''type'')"
    then have "km ''type'' =
        Some (RString (prop_name (ocp_alias this) ''OrderedCollectionPage''))"
      by (intro serialize_known_type_unset [OF km after]) auto
    with out show "out ''type'' =
              Some (RString (prop_name (ocp_alias this) ''OrderedCollectionPage''))"
      by simp
  qed
  have 3: "\<forall>m aliasMap.
            alias_of aliasMap = [] \<and>
            DeserializeOrderedCollectionPage P V m aliasMap = Inr this \<longrightarrow>
            (\<exists>t. Type this = Some t \<and> DeserializeTypeProperty V m aliasMap = Inr (Some t) \<and>
                 properties t \<noteq> [] \<and>
                 (\<forall>i. TypeProperty_Serialize V t = Inr i \<and> i \<noteq> RNil \<longrightarrow>
                    out ''type'' = Some i))"
  proof (intro allI impI)
    fix m aliasMap
    assume "alias_of aliasMap = [] \<and>
            DeserializeOrderedCollectionPage P V m aliasMap = Inr this"
    then obtain t where "Type this = Some t"
      "DeserializeTypeProperty V m aliasMap = Inr (Some t)" "properties t \<noteq> []"
      using Deserialize_Type_present [of aliasMap P V m this] by blast
    with 1 show "\<exists>t. Type this = Some t \<and> DeserializeTypeProperty V m aliasMap = Inr (Some t) \<and>
                 properties t \<noteq> [] \<and>
                 (\<forall>i. TypeProperty_Serialize V t = Inr i \<and> i \<noteq> RNil \<longrightarrow>
                    out ''type'' = Some i)"
      by auto
  qed
  have 4: "this = NewOrderedCollectionPage \<longrightarrow>
            (\<forall>i. SerializeString V ''OrderedCollectionPage'' = Inr i \<and> i \<noteq> RNil \<longrightarrow>
               out ''type'' = Some i)"
  proof (intro allI impI)
    fix i
    assume n: "this = NewOrderedCollectionPage"
      and i: "SerializeString V ''OrderedCollectionPage'' = Inr i \<and> i \<noteq> RNil"
    have "TypeProperty_Serialize V (AppendString ''OrderedCollectionPage'' NewTypeProperty) =
        SerializeString V ''OrderedCollectionPage''"
      by (auto simp add: TypeProperty_Serialize_def AppendString_def NewTypeProperty_def
          TypePropertyIterator_serialize_def it_defs it_zero_def split: sum.splits)
    with 1 n i show "out ''type'' = Some i"
      by (simp add: NewOrderedCollectionPage_def)
  qed
  from 1 2 3 4 show ?thesis by blast
qed


text \<open>
  The theorem at work: a document with an array of two types read without an alias, and
  a new entity.
\<close>

theorem type_entry_from_Type_property_witness:
  "(case DeserializeOrderedCollectionPage sample_codecs sample_values
           [''type'' \<mapsto> RList [RString ''OrderedCollectionPage'', RString ''Note'']]
           Map.empty of
      Inl err \<Rightarrow> False
    | Inr this \<Rightarrow>
        (case OrderedCollectionPage_Serialize sample_codecs sample_values this of
           Inl err \<Rightarrow> False
         | Inr out \<Rightarrow>
             out ''type'' = Some (RList [RString ''OrderedCollectionPage'', RString ''Note'']))) \<and>
   (case OrderedCollectionPage_Serialize sample_codecs sample_values
           NewOrderedCollectionPage of
      Inl err \<Rightarrow> False
    | Inr out \<Rightarrow> out ''type'' = Some (RString ''OrderedCollectionPage''))"
proof -
  let ?m = "[''type'' \<mapsto> RList [RString ''OrderedCollectionPage'', RString ''Note'']]"
  obtain this where d: "DeserializeOrderedCollectionPage sample_codecs sample_values
      ?m Map.empty = Inr this"
    by (cases "DeserializeOrderedCollectionPage sample_codecs sample_values ?m Map.empty")
       (simp_all add: eval_defs)
  have f: "Fields this = Map.empty" using d by (auto simp add: eval_defs)
  obtain out where s: "OrderedCollectionPage_Serialize sample_codecs sample_values this
      = Inr out"
    using d
    by (cases "OrderedCollectionPage_Serialize sample_codecs sample_values this")
       (auto simp add: eval_defs)
  have a: "alias_of Map.empty = []" by (simp add: alias_of_def)
  have ty: "DeserializeTypeProperty sample_values ?m Map.empty =
      Inr (Some \<lparr>properties =
         [(it_zero [])\<lparr>hasStringMember := True, stringMember := ''OrderedCollectionPage''\<rparr>,
          (it_zero [])\<lparr>hasStringMember := True, stringMember := ''Note'', myIdx := 1\<rparr>],
         tp_alias = []\<rparr>)"
    by (simp add: eval_defs)
  have 1: "out ''type'' = Some (RList [RString ''OrderedCollectionPage'', RString ''Note''])"
    using type_entry_from_Type_property [of sample_codecs sample_values this out] s f d a ty
    by (auto simp add: eval_defs)
  let ?new = "NewOrderedCollectionPage :: (string \<times> raw, string) OrderedCollectionPage"
  obtain out' where s': "OrderedCollectionPage_Serialize sample_codecs sample_values ?new
      = Inr out'"
    by (cases "OrderedCollectionPage_Serialize sample_codecs sample_values ?new")
       (simp_all add: eval_defs NewOrderedCollectionPage_def AppendString_def
          NewTypeProperty_def Len_def)
  have 2: "out' ''type'' = Some (RString ''OrderedCollectionPage'')"
    using type_entry_from_Type_property [of sample_codecs sample_values ?new out'] s'
    by (simp add: NewOrderedCollectionPage_def sample_values_def)
  from d s 1 s' 2 show ?thesis by simp
qed

section \<open>The round trip of a document\<close>

















end
